theory Spec2Isabelle
  imports Main
begin

section \<open>Data model\<close>

text \<open>
  The development embeds the authentication layer (\<^verbatim>\<open>src/authentication/jwt.ts\<close>) and the
  two controllers (\<^verbatim>\<open>src/controllers/user.controller.ts\<close>) of the LoopBack application.
  Asynchronous functions are modelled by their settled result: a rejected promise or a
  thrown exception is \<open>Inl err\<close>, a fulfilled one is \<open>Inr v\<close>. JavaScript's
  \<^verbatim>\<open>undefined\<close>/\<^verbatim>\<open>null\<close> is \<open>None\<close>. Field names carry a prefix naming their
  record, since several interfaces of the source share field names.
\<close>

subsection \<open>Errors\<close>

text \<open>
  A JavaScript error object: its \<^verbatim>\<open>name\<close>, its \<^verbatim>\<open>message\<close> and, for the errors
  of \<^verbatim>\<open>HttpErrors\<close>, its \<^verbatim>\<open>statusCode\<close>.
\<close>

record js_error =
  err_name :: string
  err_message :: string
  err_statusCode :: "nat option"

definition BadRequest :: "string \<Rightarrow> js_error" where
  "BadRequest msg = \<lparr>err_name = ''BadRequestError'', err_message = msg, err_statusCode = Some 400\<rparr>"

definition Unauthorized :: "string \<Rightarrow> js_error" where
  "Unauthorized msg = \<lparr>err_name = ''UnauthorizedError'', err_message = msg, err_statusCode = Some 401\<rparr>"


text \<open>Destructuring \<^verbatim>\<open>undefined\<close> throws a \<^verbatim>\<open>TypeError\<close>.\<close>

definition TypeError :: "string \<Rightarrow> js_error" where
  "TypeError msg = \<lparr>err_name = ''TypeError'', err_message = msg, err_statusCode = None\<rparr>"

subsection \<open>Authentication metadata (jwt.ts, lines 29-65)\<close>

definition JWT_STRATEGY_NAME :: string where
  "JWT_STRATEGY_NAME = ''jwt''"

datatype SecuredType = IS_AUTHENTICATED | PERMIT_ALL | HAS_ANY_ROLE | HAS_ROLES | DENY_ALL

record MyAuthenticationMetadata =
  meta_type :: SecuredType
  meta_roles :: "string list"
  meta_strategy :: string
  meta_options :: "(string \<times> string) list option"

text \<open>
  The decorator \<^verbatim>\<open>secured(type, roles, strategy, options)\<close>: an omitted argument is
  \<open>None\<close> and takes the default of the source.
\<close>

definition secured ::
  "SecuredType option \<Rightarrow> string list option \<Rightarrow> string option \<Rightarrow> (string \<times> string) list option
    \<Rightarrow> MyAuthenticationMetadata" where
  "secured type roles strategy options =
     \<lparr>meta_type = (case type of None \<Rightarrow> IS_AUTHENTICATED | Some t \<Rightarrow> t),
      meta_roles = (case roles of None \<Rightarrow> [] | Some rs \<Rightarrow> rs),
      meta_strategy = (case strategy of None \<Rightarrow> ''jwt'' | Some s \<Rightarrow> s),
      meta_options = options\<rparr>"

definition JWT_SECRET :: string where
  "JWT_SECRET = ''testjwt''"

subsection \<open>Users and the user repository\<close>

text \<open>
  The \<^verbatim>\<open>User\<close> model is not among the sources; the record has the fields the sources
  read or write (\<^verbatim>\<open>id\<close>, \<^verbatim>\<open>username\<close>, \<^verbatim>\<open>email\<close>, \<^verbatim>\<open>password\<close>,
  \<^verbatim>\<open>phone\<close>, \<^verbatim>\<open>photoUrl\<close>). Ids are the integers the data source generates.
\<close>

record user =
  user_id :: int
  user_username :: string
  user_email :: string
  user_password :: string
  user_phone :: "string option"
  user_photoUrl :: "string option"

text \<open>
  The repository is an in-memory table. A query of the source is awaited, so it can
  reject: \<open>repo_fault\<close> is the error every operation rejects with while the data source
  is failing (\<open>None\<close> when it works).
\<close>

record UserRepository =
  repo_rows :: "user list"
  repo_fault :: "js_error option"

text \<open>\<^verbatim>\<open>userRepository.findOne({where: {email: email}})\<close>: the first row, or null.\<close>

definition findOne :: "UserRepository \<Rightarrow> string \<Rightarrow> js_error + user option" where
  "findOne r email =
     (case repo_fault r of
        Some err \<Rightarrow> Inl err
      | None \<Rightarrow> Inr (find (\<lambda>u. user_email u = email) (repo_rows r)))"

text \<open>\<^verbatim>\<open>userRepository.find({where: {email: email}})\<close>: every matching row.\<close>

definition find_by_email :: "UserRepository \<Rightarrow> string \<Rightarrow> js_error + user list" where
  "find_by_email r email =
     (case repo_fault r of
        Some err \<Rightarrow> Inl err
      | None \<Rightarrow> Inr (filter (\<lambda>u. user_email u = email) (repo_rows r)))"

subsection \<open>The identity attached to a request\<close>

text \<open>
  The \<^verbatim>\<open>roles\<close> attribute of a profile is a JavaScript object: a list of properties
  with their values (here lists of role names). \<^verbatim>\<open>{}\<close> is the empty list.
\<close>

type_synonym roles_object = "(string \<times> string list) list"

definition hasOwnProperty :: "roles_object \<Rightarrow> string \<Rightarrow> bool" where
  "hasOwnProperty obj k = (map_of obj k \<noteq> None)"

text \<open>\<^verbatim>\<open>obj[k]\<close> for a property that \<open>hasOwnProperty\<close> has found.\<close>

definition property_of :: "roles_object \<Rightarrow> string \<Rightarrow> string list" where
  "property_of obj k = (case map_of obj k of Some v \<Rightarrow> v | None \<Rightarrow> [])"

record UserProfile =
  info_securityId :: int
  info_username :: string
  info_email :: string
  info_roles :: roles_object
  info_phone :: "string option"
  info_photoUrl :: "string option"

subsection \<open>The strategy provider (jwt.ts, lines 105-221)\<close>

record MyAuthAuthenticationStrategyProvider =
  metadata :: "MyAuthenticationMetadata option"
  userRepository :: UserRepository

text \<open>The verified payload of a token; \<^verbatim>\<open>verifyToken\<close> reads its \<^verbatim>\<open>email\<close>.\<close>

record jwt_payload =
  payload_email :: string

text \<open>
  One call of passport's callback \<^verbatim>\<open>done(err, user)\<close>: the error (\<^verbatim>\<open>null\<close> is
  \<open>None\<close>) and the user (\<^verbatim>\<open>false\<close> is \<open>None\<close>).
\<close>

datatype done_call = Done "js_error option" "UserProfile option"

text \<open>
  \<^verbatim>\<open>verifyToken(payload, done)\<close>, as the list of the calls of \<^verbatim>\<open>done\<close> it makes, in
  order. The lookup is the only statement of the \<^verbatim>\<open>try\<close> block that can throw; the
  \<^verbatim>\<open>catch\<close> block calls \<^verbatim>\<open>done\<close> twice for an \<^verbatim>\<open>UnauthorizedError\<close>, since its
  first call is not followed by a return. The role lookup and the call of
  \<^verbatim>\<open>verifyRoles\<close> are commented out in the source, so \<^verbatim>\<open>roles\<close> stays \<^verbatim>\<open>{}\<close>.
\<close>

definition verifyToken :: "MyAuthAuthenticationStrategyProvider \<Rightarrow> jwt_payload \<Rightarrow> done_call list" where
  "verifyToken p payload =
     (case findOne (userRepository p) (payload_email payload) of
        Inl err \<Rightarrow>
          (if err_name err = ''UnauthorizedError'' then [Done None None] else [])
          @ [Done (Some err) None]
      | Inr None \<Rightarrow> [Done None None]
      | Inr (Some user) \<Rightarrow>
          (let roles = [];
               userInfo = \<lparr>info_securityId = user_id user,
                           info_username = user_username user,
                           info_email = user_email user,
                           info_roles = roles,
                           info_phone = user_phone user,
                           info_photoUrl = user_photoUrl user\<rparr>
           in [Done None (Some userInfo)]))"

text \<open>The two loops of \<^verbatim>\<open>verifyRoles\<close>.\<close>

fun any_role_included :: "string list \<Rightarrow> string list \<Rightarrow> bool" where
  "any_role_included [] permissions = False"
| "any_role_included (role # roles) permissions =
     (if role \<in> set permissions then True else any_role_included roles permissions)"

fun all_roles_valid :: "string list \<Rightarrow> string list \<Rightarrow> bool" where
  "all_roles_valid [] roleIds = True"
| "all_roles_valid (role # roles) roleIds =
     (if role \<notin> set roleIds then False else all_roles_valid roles roleIds)"

text \<open>
  \<^verbatim>\<open>verifyRoles(userData)\<close>: \<open>Inr ()\<close> when it returns, \<open>Inl err\<close> when it throws.
\<close>

definition verifyRoles :: "MyAuthAuthenticationStrategyProvider \<Rightarrow> UserProfile \<Rightarrow> js_error + unit" where
  "verifyRoles p userData =
     (case metadata p of
        None \<Rightarrow> Inl (TypeError ''Cannot destructure property of undefined'')
      | Some m \<Rightarrow>
          (let type = meta_type m; roles = meta_roles m in
           if type \<in> set [IS_AUTHENTICATED, PERMIT_ALL] then Inr ()
           else if type = HAS_ANY_ROLE then
             (if roles = [] \<or> \<not> hasOwnProperty (info_roles userData) ''permissions''
              then Inl (Unauthorized ''Invalid authorization'')
              else if any_role_included roles (property_of (info_roles userData) ''permissions'')
              then Inr ()
              else Inl (Unauthorized ''Invalid authorization''))
           else if type = HAS_ROLES \<and> roles \<noteq> [] then
             (if roles = [] \<or> \<not> hasOwnProperty (info_roles userData) ''permissions''
              then Inl (Unauthorized ''Invalid authorization'')
              else if all_roles_valid roles (property_of (info_roles userData) ''permissions'')
              then Inr ()
              else Inl (Unauthorized ''Invalid authorization''))
           else Inl (Unauthorized ''Invalid authorization'')))"

subsection \<open>Token extraction and the strategy (jwt.ts, lines 114-141)\<close>

type_synonym 'req extractor = "'req \<Rightarrow> string option"

text \<open>
  Modelled from the spec: \<^verbatim>\<open>ExtractJwt.fromExtractors\<close> belongs to the passport-jwt
  package and is not among the sources. The specification says of it: extraction order
  is the order of the list, and the first successfully-extracted non-empty token wins.
\<close>

fun fromExtractors :: "'req extractor list \<Rightarrow> 'req extractor" where
  "fromExtractors [] request = None"
| "fromExtractors (e # es) request =
     (case e request of
        None \<Rightarrow> fromExtractors es request
      | Some token \<Rightarrow> if token = [] then fromExtractors es request else Some token)"

text \<open>
  The options and the verify callback the provider hands to \<^verbatim>\<open>new JwtStrategy\<close>.
\<close>

record 'req JwtStrategy =
  secretOrKey :: string
  jwtFromRequest :: "'req extractor"
  verify :: "jwt_payload \<Rightarrow> done_call list"

text \<open>
  \<^verbatim>\<open>value()\<close> of the strategy provider: no strategy without metadata or for a
  strategy name other than \<^verbatim>\<open>jwt\<close>, otherwise the JWT strategy (which the source
  wraps in LoopBack's \<^verbatim>\<open>StrategyAdapter\<close>). The two extractors of passport-jwt,
  \<^verbatim>\<open>fromAuthHeaderAsBearerToken()\<close> and \<^verbatim>\<open>fromUrlQueryParameter(name)\<close>, are
  parameters.
\<close>

definition strategy_value ::
  "'req extractor \<Rightarrow> (string \<Rightarrow> 'req extractor) \<Rightarrow> MyAuthAuthenticationStrategyProvider
    \<Rightarrow> 'req JwtStrategy option" where
  "strategy_value fromAuthHeaderAsBearerToken fromUrlQueryParameter p =
     (case metadata p of
        None \<Rightarrow> None
      | Some m \<Rightarrow>
          if meta_strategy m = JWT_STRATEGY_NAME
          then Some \<lparr>secretOrKey = JWT_SECRET,
                     jwtFromRequest = fromExtractors
                       [fromAuthHeaderAsBearerToken, fromUrlQueryParameter ''access_token''],
                     verify = verifyToken p\<rparr>
          else None)"

subsection \<open>The authentication action (jwt.ts, lines 224-251)\<close>

text \<open>
  The strategy the action obtains from its getter: \<^verbatim>\<open>authenticate(request)\<close> resolves
  to a user, resolves to nothing, or rejects.
\<close>

record 'req AuthenticationStrategy =
  strategy_name :: string
  authenticate :: "'req \<Rightarrow> js_error + UserProfile option"

text \<open>The calls the action makes on its collaborators, in order.\<close>

datatype 'req auth_call =
  GetMetadata | GetStrategy | Authenticate 'req | SetCurrentUser UserProfile

record 'req request_context =
  currentUser :: "UserProfile option"
  calls :: "'req auth_call list"

record 'req MyAuthActionProvider =
  getStrategy :: "'req AuthenticationStrategy option"
  getMetadata :: "MyAuthenticationMetadata option"

definition called :: "'req auth_call \<Rightarrow> 'req request_context \<Rightarrow> 'req request_context" where
  "called c ctx = ctx\<lparr>calls := calls ctx @ [c]\<rparr>"

definition action ::
  "'req MyAuthActionProvider \<Rightarrow> 'req \<Rightarrow> 'req request_context
    \<Rightarrow> (js_error + UserProfile option) \<times> 'req request_context" where
  "action a request ctx0 =
     (let ctx1 = called GetMetadata ctx0 in
      if (case getMetadata a of None \<Rightarrow> False | Some m \<Rightarrow> meta_type m = PERMIT_ALL)
      then (Inr None, ctx1)
      else
        (let ctx2 = called GetStrategy ctx1 in
         case getStrategy a of
           None \<Rightarrow> (Inr None, ctx2)
         | Some strategy \<Rightarrow>
             (let ctx3 = called (Authenticate request) ctx2 in
              case authenticate strategy request of
                Inl err \<Rightarrow> (Inl err, ctx3)
              | Inr None \<Rightarrow> (Inr None, ctx3)
              | Inr (Some user) \<Rightarrow>
                  (Inr (Some user),
                   (called (SetCurrentUser user) ctx3)\<lparr>currentUser := Some user\<rparr>))))"

section \<open>The user controller (user.controller.ts, lines 60-169)\<close>

text \<open>
  The body of a login request. A field the client left out is \<open>None\<close>; \<open>falsy\<close> is
  JavaScript's \<^verbatim>\<open>!s\<close> on a string that may be missing.
\<close>

record Credentials =
  cred_email :: "string option"
  cred_password :: "string option"

definition falsy :: "string option \<Rightarrow> bool" where
  "falsy s = (case s of None \<Rightarrow> True | Some v \<Rightarrow> v = [])"

text \<open>
  \<^verbatim>\<open>login(credentials)\<close>. \<^verbatim>\<open>signAsync(payload, secret, {expiresIn})\<close> of
  jsonwebtoken and \<^verbatim>\<open>bcrypt.compare(plain, hash)\<close> of bcryptjs are parameters.
\<close>

definition login ::
  "(jwt_payload \<Rightarrow> string \<Rightarrow> nat \<Rightarrow> 'tok) \<Rightarrow> (string \<Rightarrow> string \<Rightarrow> bool)
    \<Rightarrow> UserRepository \<Rightarrow> Credentials \<Rightarrow> js_error + 'tok" where
  "login signAsync compare repo credentials =
     (if falsy (cred_email credentials) \<or> falsy (cred_password credentials)
      then Inl (BadRequest ''Missing Email or Password'')
      else
        (case findOne repo (the (cred_email credentials)) of
           Inl err \<Rightarrow> Inl err
         | Inr None \<Rightarrow> Inl (Unauthorized ''Invalid credentials'')
         | Inr (Some user) \<Rightarrow>
             (let isPasswordMatched = compare (the (cred_password credentials)) (user_password user) in
              if \<not> isPasswordMatched then Inl (Unauthorized ''Invalid credentials'')
              else
                (let tokenObject = \<lparr>payload_email = the (cred_email credentials)\<rparr>;
                     token = signAsync tokenObject ''testjwt'' (60 * 60)
                 in Inr token))))"

text \<open>\<^verbatim>\<open>whoAmI\<close> is decorated with \<^verbatim>\<open>@secured()\<close>, every argument omitted.\<close>

definition whoAmI_metadata :: MyAuthenticationMetadata where
  "whoAmI_metadata = secured None None None None"

definition whoAmI :: "UserProfile \<Rightarrow> int" where
  "whoAmI currentUserProfile = info_securityId currentUserProfile"

text \<open>The body of a signup request: a user without an id, whose password may be missing.\<close>

record user_body =
  body_username :: string
  body_email :: string
  body_password :: "string option"
  body_phone :: "string option"
  body_photoUrl :: "string option"

text \<open>
  \<^verbatim>\<open>userRepository.create(user)\<close>: the data source generates the id, here the
  successor of the largest id in the table. \<^verbatim>\<open>createUser\<close> calls it with a password
  only.
\<close>

definition next_user_id :: "user list \<Rightarrow> int" where
  "next_user_id rows = fold max (map user_id rows) 0 + 1"

definition create :: "UserRepository \<Rightarrow> user_body \<Rightarrow> (js_error + user) \<times> UserRepository" where
  "create r body =
     (case repo_fault r of
        Some err \<Rightarrow> (Inl err, r)
      | None \<Rightarrow>
          (let row = \<lparr>user_id = next_user_id (repo_rows r),
                      user_username = body_username body,
                      user_email = body_email body,
                      user_password = (case body_password body of Some pw \<Rightarrow> pw | None \<Rightarrow> []),
                      user_phone = body_phone body,
                      user_photoUrl = body_photoUrl body\<rparr>
           in (Inr row, r\<lparr>repo_rows := repo_rows r @ [row]\<rparr>)))"

text \<open>
  \<^verbatim>\<open>createUser(user)\<close>. \<^verbatim>\<open>hash(plain, salt)\<close> of bcryptjs is a parameter, and
  \<open>salt\<close> is what \<^verbatim>\<open>genSalt()\<close> resolved to.
\<close>

definition createUser ::
  "(string \<Rightarrow> string \<Rightarrow> string) \<Rightarrow> string \<Rightarrow> UserRepository \<Rightarrow> user_body
    \<Rightarrow> (js_error + user) \<times> UserRepository" where
  "createUser hash salt repo user =
     (case find_by_email repo (body_email user) of
        Inl err \<Rightarrow> (Inl err, repo)
      | Inr findUser \<Rightarrow>
          if length findUser \<ge> 1 then (Inl (BadRequest ''Email already exist.''), repo)
          else if falsy (body_password user)
          then (Inl (BadRequest ''User Must Have Password.''), repo)
          else
            (let password = hash (the (body_password user)) salt
             in create repo (user\<lparr>body_password := Some password\<rparr>)))"

section \<open>The product controller (user.controller.ts, lines 197-364)\<close>










section \<open>The token codec\<close>

text \<open>
  Modelled from the spec: signing and verification are done by the jsonwebtoken and
  passport-jwt packages, which are not among the sources. The specification describes
  a token as a signed value encoding a claim with its time of issue and of expiry;
  \<^verbatim>\<open>issue(claim, ttlSeconds)\<close> signs with the single shared secret, and \<^verbatim>\<open>parse\<close>
  checks the signature and \<^verbatim>\<open>now < expiresAt\<close>, with the outcomes claim, Expired and
  Invalid. The signature is symbolic: a token records the key it was signed with.
  Time is in seconds.
\<close>

record 'c token =
  tok_claim :: 'c
  tok_issuedAt :: nat
  tok_expiresAt :: nat
  tok_signedWith :: string

datatype 'c parse_result = Claim 'c | Expired | Invalid

definition issue :: "string \<Rightarrow> nat \<Rightarrow> 'c \<Rightarrow> nat \<Rightarrow> 'c token" where
  "issue secret now claim ttlSeconds =
     \<lparr>tok_claim = claim, tok_issuedAt = now, tok_expiresAt = now + ttlSeconds,
      tok_signedWith = secret\<rparr>"

definition parse :: "string \<Rightarrow> nat \<Rightarrow> 'c token \<Rightarrow> 'c parse_result" where
  "parse secret now t =
     (if tok_signedWith t \<noteq> secret then Invalid
      else if now < tok_expiresAt t then Claim (tok_claim t)
      else Expired)"

text \<open>\<^verbatim>\<open>signAsync\<close> as the codec's \<open>issue\<close>, at the time of the call.\<close>

definition signAsync_at :: "nat \<Rightarrow> jwt_payload \<Rightarrow> string \<Rightarrow> nat \<Rightarrow> jwt_payload token" where
  "signAsync_at now payload secret expiresIn = issue secret now payload expiresIn"

section \<open>Stand-ins for the collaborators, used in the examples\<close>

text \<open>
  A request as the examples need it: the token of an \<^verbatim>\<open>Authorization: Bearer\<close>
  header and the query parameters.
\<close>

record example_request =
  bearer :: "string option"
  query :: "(string \<times> string) list"

definition example_header :: "example_request extractor" where
  "example_header request = bearer request"

definition example_query :: "string \<Rightarrow> example_request extractor" where
  "example_query k request = map_of (query request) k"

definition example_hash :: "string \<Rightarrow> string \<Rightarrow> string" where
  "example_hash plain salt = salt @ plain"

definition example_sign :: "jwt_payload \<Rightarrow> string \<Rightarrow> nat \<Rightarrow> string" where
  "example_sign payload secret expiresIn = payload_email payload @ ''.'' @ secret"

definition example_compare :: "string \<Rightarrow> string \<Rightarrow> bool" where
  "example_compare plain hashed = (hashed = ''$2a$'' @ plain)"

definition alice :: user where
  "alice = \<lparr>user_id = 7, user_username = ''alice'', user_email = ''a@b.com'',
            user_password = ''$2a$12345678'', user_phone = None, user_photoUrl = None\<rparr>"

definition example_users :: UserRepository where
  "example_users = \<lparr>repo_rows = [alice], repo_fault = None\<rparr>"



section \<open>Helper facts\<close>

lemma all_roles_valid_iff: "all_roles_valid roles roleIds = (set roles \<subseteq> set roleIds)"
  by (induction roles) auto

lemma any_role_included_iff: "any_role_included roles ps = (set roles \<inter> set ps \<noteq> {})"
  by (induction roles) auto

lemma find_map_password:
  "find (\<lambda>u. user_email u = e) (map (\<lambda>u. u\<lparr>user_password := f u\<rparr>) rows)
     = map_option (\<lambda>u. u\<lparr>user_password := f u\<rparr>) (find (\<lambda>u. user_email u = e) rows)"
  by (induction rows) auto

lemma findOne_email:
  "findOne r e = Inr (Some u) \<Longrightarrow> user_email u = e"
  by (auto simp: findOne_def find_Some_iff split: option.splits)

lemma find_by_email_Inr: "find_by_email repo e = Inr xs \<Longrightarrow> repo_fault repo = None"
  by (simp add: find_by_email_def split: option.splits)

section \<open>Token verification and the endpoint's metadata\<close>

text \<open>
  C1. For every authentication metadata value (any secured type, any declared role list,
  or none) and every token payload, \<open>verifyToken\<close> makes the same calls of
  \<^verbatim>\<open>done\<close>: the outcome is the same under any two metadata values. It succeeds
  (one call \<^verbatim>\<open>done(null, userInfo)\<close>) exactly when the lookup of the payload's email
  returns a stored user, and the \<^verbatim>\<open>roles\<close> of every identity it hands over is the
  empty object. \<open>verifyRoles\<close> is not called.
\<close>

theorem verifyToken_ignores_metadata:
  "verifyToken (p\<lparr>metadata := ma\<rparr>) payload = verifyToken (p\<lparr>metadata := mb\<rparr>) payload
   \<and> ((\<exists>info. verifyToken (p\<lparr>metadata := ma\<rparr>) payload = [Done None (Some info)])
        = (\<exists>u. findOne (userRepository p) (payload_email payload) = Inr (Some u)))
   \<and> (\<forall>d \<in> set (verifyToken (p\<lparr>metadata := ma\<rparr>) payload).
         \<forall>err info. d = Done err (Some info) \<longrightarrow> info_roles info = [])"
  by (auto simp: verifyToken_def Let_def split: sum.splits option.splits if_splits)

theorem verifyToken_ignores_metadata_witness:
  "verifyToken \<lparr>metadata = Some (secured (Some HAS_ROLES) (Some [''admin'']) None None),
                 userRepository = example_users\<rparr> \<lparr>payload_email = ''a@b.com''\<rparr>
     = verifyToken \<lparr>metadata = Some (secured (Some PERMIT_ALL) None None None),
                 userRepository = example_users\<rparr> \<lparr>payload_email = ''a@b.com''\<rparr>
   \<and> verifyToken \<lparr>metadata = Some (secured (Some HAS_ROLES) (Some [''admin'']) None None),
                 userRepository = example_users\<rparr> \<lparr>payload_email = ''a@b.com''\<rparr>
     = [Done None (Some \<lparr>info_securityId = 7, info_username = ''alice'', info_email = ''a@b.com'',
                          info_roles = [], info_phone = None, info_photoUrl = None\<rparr>)]"
  using verifyToken_ignores_metadata
    [where p = "\<lparr>metadata = None, userRepository = example_users\<rparr>"
       and ma = "Some (secured (Some HAS_ROLES) (Some [''admin'']) None None)"
       and payload = "\<lparr>payload_email = ''a@b.com''\<rparr>"
       and mb = "Some (secured (Some PERMIT_ALL) None None None)"]
  by (simp add: verifyToken_def findOne_def example_users_def alice_def)

section \<open>Role checks\<close>

text \<open>
  C2, as the code has it. Under \<^verbatim>\<open>HAS_ROLES\<close> metadata, \<open>verifyRoles\<close> returns
  exactly when the declared role list is not empty and the identity's \<^verbatim>\<open>roles\<close>
  object has a \<^verbatim>\<open>permissions\<close> property that contains every declared role;
  otherwise it throws Unauthorized. With the roles A and B declared, an identity with
  the permission A is refused and one with A, B and C is allowed. An empty declared
  list is refused for every identity.
\<close>

theorem verifyRoles_HAS_ROLES:
  assumes "metadata p = Some m" and "meta_type m = HAS_ROLES"
  shows "verifyRoles p userData =
           (if meta_roles m \<noteq> []
               \<and> (\<exists>permissions. map_of (info_roles userData) ''permissions'' = Some permissions
                     \<and> set (meta_roles m) \<subseteq> set permissions)
            then Inr () else Inl (Unauthorized ''Invalid authorization''))"
  using assms
  by (auto simp: verifyRoles_def Let_def hasOwnProperty_def property_of_def all_roles_valid_iff
           split: option.splits)

theorem verifyRoles_HAS_ROLES_witness:
  "verifyRoles \<lparr>metadata = Some (secured (Some HAS_ROLES) (Some [''A'', ''B'']) None None),
                 userRepository = example_users\<rparr>
               \<lparr>info_securityId = 7, info_username = ''alice'', info_email = ''a@b.com'',
                info_roles = [(''permissions'', [''A''])], info_phone = None, info_photoUrl = None\<rparr>
     = Inl (Unauthorized ''Invalid authorization'')
   \<and> verifyRoles \<lparr>metadata = Some (secured (Some HAS_ROLES) (Some [''A'', ''B'']) None None),
                 userRepository = example_users\<rparr>
               \<lparr>info_securityId = 7, info_username = ''alice'', info_email = ''a@b.com'',
                info_roles = [(''permissions'', [''A'', ''B'', ''C''])], info_phone = None,
                info_photoUrl = None\<rparr>
     = Inr ()"
  using
    verifyRoles_HAS_ROLES
      [of "\<lparr>metadata = Some (secured (Some HAS_ROLES) (Some [''A'', ''B'']) None None),
            userRepository = example_users\<rparr>"
          "secured (Some HAS_ROLES) (Some [''A'', ''B'']) None None"
          "\<lparr>info_securityId = 7, info_username = ''alice'', info_email = ''a@b.com'',
            info_roles = [(''permissions'', [''A''])], info_phone = None, info_photoUrl = None\<rparr>"]
    verifyRoles_HAS_ROLES
      [of "\<lparr>metadata = Some (secured (Some HAS_ROLES) (Some [''A'', ''B'']) None None),
            userRepository = example_users\<rparr>"
          "secured (Some HAS_ROLES) (Some [''A'', ''B'']) None None"
          "\<lparr>info_securityId = 7, info_username = ''alice'', info_email = ''a@b.com'',
            info_roles = [(''permissions'', [''A'', ''B'', ''C''])], info_phone = None,
            info_photoUrl = None\<rparr>"]
  by (simp add: secured_def)

text \<open>
  The claim as the specification states it fails: with \<^verbatim>\<open>HAS_ROLES\<close> and an empty
  declared list, an identity that holds the permission A is refused.
\<close>

theorem verifyRoles_empty_HAS_ROLES_counterexample:
  "verifyRoles \<lparr>metadata = Some (secured (Some HAS_ROLES) (Some []) None None),
                 userRepository = example_users\<rparr>
               \<lparr>info_securityId = 7, info_username = ''alice'', info_email = ''a@b.com'',
                info_roles = [(''permissions'', [''A''])], info_phone = None, info_photoUrl = None\<rparr>
     = Inl (Unauthorized ''Invalid authorization'')"
  by (simp add: verifyRoles_def secured_def)

section \<open>Public endpoints\<close>

text \<open>
  C3. When the endpoint's metadata has the type \<^verbatim>\<open>PERMIT_ALL\<close>, the authentication
  action returns (no user, no error) after reading the metadata only: the strategy is
  neither fetched nor asked to authenticate, whatever the request carries and whatever
  strategy is bound, and the current user is left as it was. \<open>verifyRoles\<close> under such
  metadata returns for every identity.
\<close>

theorem PERMIT_ALL_skips_strategy:
  assumes "getMetadata a = Some m" and "meta_type m = PERMIT_ALL"
  shows "action a request ctx = (Inr None, ctx\<lparr>calls := calls ctx @ [GetMetadata]\<rparr>)
         \<and> action (a\<lparr>getStrategy := strategy\<rparr>) request' ctx = action a request ctx
         \<and> verifyRoles (p\<lparr>metadata := Some m\<rparr>) userData = Inr ()"
proof -
  have permit: "(case getMetadata a of None \<Rightarrow> False | Some m \<Rightarrow> meta_type m = PERMIT_ALL)"
    using assms by simp
  have first: "action a request ctx = (Inr None, ctx\<lparr>calls := calls ctx @ [GetMetadata]\<rparr>)"
    using permit by (simp add: action_def called_def)
  have second: "action (a\<lparr>getStrategy := strategy\<rparr>) request' ctx = action a request ctx"
    using permit by (simp add: action_def called_def)
  have third: "verifyRoles (p\<lparr>metadata := Some m\<rparr>) userData = Inr ()"
    using assms(2) by (simp add: verifyRoles_def)
  from first second third show ?thesis by simp
qed

theorem PERMIT_ALL_skips_strategy_witness:
  "action \<lparr>getStrategy = Some \<lparr>strategy_name = ''jwt'',
                                 authenticate = (\<lambda>r. Inl (Unauthorized ''No auth token''))\<rparr>,
           getMetadata = Some (secured (Some PERMIT_ALL) None None None)\<rparr>
          \<lparr>bearer = None, query = []\<rparr>
          \<lparr>currentUser = None, calls = []\<rparr>
     = (Inr None, \<lparr>currentUser = None, calls = [GetMetadata]\<rparr>)
   \<and> verifyRoles \<lparr>metadata = Some (secured (Some PERMIT_ALL) None None None),
                   userRepository = example_users\<rparr>
        \<lparr>info_securityId = 7, info_username = ''alice'', info_email = ''a@b.com'',
         info_roles = [], info_phone = None, info_photoUrl = None\<rparr>
     = Inr ()"
  using PERMIT_ALL_skips_strategy
    [where a = "\<lparr>getStrategy = Some \<lparr>strategy_name = ''jwt'',
                                 authenticate = (\<lambda>r. Inl (Unauthorized ''No auth token''))\<rparr>,
           getMetadata = Some (secured (Some PERMIT_ALL) None None None)\<rparr>"
       and m = "secured (Some PERMIT_ALL) None None None"
       and request = "\<lparr>bearer = None, query = []\<rparr>"
       and ctx = "\<lparr>currentUser = None, calls = []\<rparr>"
       and p = "\<lparr>metadata = None, userRepository = example_users\<rparr>"
       and userData = "\<lparr>info_securityId = 7, info_username = ''alice'', info_email = ''a@b.com'',
         info_roles = [], info_phone = None, info_photoUrl = None\<rparr>"]
  by (simp add: secured_def)

section \<open>Login\<close>

text \<open>
  C4. \<^verbatim>\<open>POST /users/login\<close> throws BadRequest (HTTP 400) when the email or the
  password is missing (or empty); otherwise it throws Unauthorized (HTTP 401) when no
  stored user has the email or when bcrypt's comparison of the password with the stored
  hash fails; otherwise it returns the token signed for the email, under the secret
  \<^verbatim>\<open>testjwt\<close> with an expiry of 3600 seconds.
\<close>

theorem login_outcomes:
  "(falsy (cred_email c) \<or> falsy (cred_password c) \<longrightarrow>
      login signAsync compare repo c = Inl (BadRequest ''Missing Email or Password'')
      \<and> err_statusCode (BadRequest ''Missing Email or Password'') = Some 400)
   \<and> (cred_email c = Some email \<and> email \<noteq> [] \<and> cred_password c = Some password \<and> password \<noteq> [] \<longrightarrow>
        (findOne repo email = Inr None \<longrightarrow>
           login signAsync compare repo c = Inl (Unauthorized ''Invalid credentials''))
        \<and> (findOne repo email = Inr (Some user) \<and> \<not> compare password (user_password user) \<longrightarrow>
           login signAsync compare repo c = Inl (Unauthorized ''Invalid credentials''))
        \<and> err_statusCode (Unauthorized ''Invalid credentials'') = Some 401
        \<and> (findOne repo email = Inr (Some user) \<and> compare password (user_password user) \<longrightarrow>
           login signAsync compare repo c
             = Inr (signAsync \<lparr>payload_email = email\<rparr> ''testjwt'' 3600)))"
  by (auto simp: login_def falsy_def BadRequest_def Unauthorized_def Let_def split: option.splits)

theorem login_outcomes_witness:
  "login example_sign example_compare example_users
      \<lparr>cred_email = Some ''a@b.com'', cred_password = None\<rparr>
     = Inl (BadRequest ''Missing Email or Password'')
   \<and> login example_sign example_compare example_users
      \<lparr>cred_email = Some ''x@y.com'', cred_password = Some ''12345678''\<rparr>
     = Inl (Unauthorized ''Invalid credentials'')
   \<and> login example_sign example_compare example_users
      \<lparr>cred_email = Some ''a@b.com'', cred_password = Some ''87654321''\<rparr>
     = Inl (Unauthorized ''Invalid credentials'')
   \<and> login example_sign example_compare example_users
      \<lparr>cred_email = Some ''a@b.com'', cred_password = Some ''12345678''\<rparr>
     = Inr ''a@b.com.testjwt''"
proof -
  have found: "findOne example_users ''a@b.com'' = Inr (Some alice)"
    and absent: "findOne example_users ''x@y.com'' = Inr None"
    by (simp_all add: findOne_def example_users_def alice_def)
  have wrong: "\<not> example_compare ''87654321'' (user_password alice)"
    and right: "example_compare ''12345678'' (user_password alice)"
    by (simp_all add: example_compare_def alice_def)
  show ?thesis
    using found absent wrong right
      login_outcomes [where c = "\<lparr>cred_email = Some ''a@b.com'', cred_password = None\<rparr>"
        and signAsync = example_sign and compare = example_compare and repo = example_users
        and email = "''a@b.com''" and password = "''12345678''" and user = alice]
      login_outcomes [where c = "\<lparr>cred_email = Some ''x@y.com'', cred_password = Some ''12345678''\<rparr>"
        and signAsync = example_sign and compare = example_compare and repo = example_users
        and email = "''x@y.com''" and password = "''12345678''" and user = alice]
      login_outcomes [where c = "\<lparr>cred_email = Some ''a@b.com'', cred_password = Some ''87654321''\<rparr>"
        and signAsync = example_sign and compare = example_compare and repo = example_users
        and email = "''a@b.com''" and password = "''87654321''" and user = alice]
      login_outcomes [where c = "\<lparr>cred_email = Some ''a@b.com'', cred_password = Some ''12345678''\<rparr>"
        and signAsync = example_sign and compare = example_compare and repo = example_users
        and email = "''a@b.com''" and password = "''12345678''" and user = alice]
    by (simp add: falsy_def example_sign_def)
qed

section \<open>Signup\<close>

text \<open>
  C5, as the code has it. \<^verbatim>\<open>POST /signup\<close> throws BadRequest (HTTP 400) when the
  email is already registered, and when it is not but the password is missing (or
  empty). For every other password, of any length, it stores and returns the created
  user, whose password is what bcrypt's \<^verbatim>\<open>hash\<close> returned for the submitted password
  and the generated salt, and so differs from the plaintext whenever that hash does.
\<close>

theorem createUser_outcomes:
  "(find_by_email repo (body_email user) = Inr (x # xs) \<longrightarrow>
      createUser hash salt repo user = (Inl (BadRequest ''Email already exist.''), repo)
      \<and> err_statusCode (BadRequest ''Email already exist.'') = Some 400)
   \<and> (find_by_email repo (body_email user) = Inr [] \<and> falsy (body_password user) \<longrightarrow>
      createUser hash salt repo user = (Inl (BadRequest ''User Must Have Password.''), repo)
      \<and> err_statusCode (BadRequest ''User Must Have Password.'') = Some 400)
   \<and> (find_by_email repo (body_email user) = Inr [] \<and> body_password user = Some plain \<and> plain \<noteq> [] \<longrightarrow>
      (\<exists>created.
         createUser hash salt repo user
           = (Inr created, repo\<lparr>repo_rows := repo_rows repo @ [created]\<rparr>)
         \<and> user_email created = body_email user
         \<and> user_username created = body_username user
         \<and> user_password created = hash plain salt
         \<and> (hash plain salt \<noteq> plain \<longrightarrow> user_password created \<noteq> plain)))"
proof (intro conjI impI)
  assume "find_by_email repo (body_email user) = Inr (x # xs)"
  then show "createUser hash salt repo user = (Inl (BadRequest ''Email already exist.''), repo)"
    by (simp add: createUser_def)
next
  show "err_statusCode (BadRequest ''Email already exist.'') = Some 400"
    by (simp add: BadRequest_def)
next
  assume "find_by_email repo (body_email user) = Inr [] \<and> falsy (body_password user)"
  then show "createUser hash salt repo user = (Inl (BadRequest ''User Must Have Password.''), repo)"
    by (simp add: createUser_def)
next
  show "err_statusCode (BadRequest ''User Must Have Password.'') = Some 400"
    by (simp add: BadRequest_def)
next
  assume a: "find_by_email repo (body_email user) = Inr [] \<and> body_password user = Some plain \<and> plain \<noteq> []"
  then have nofault: "repo_fault repo = None"
    using find_by_email_Inr by blast
  from a have nf: "\<not> falsy (body_password user)"
    by (simp add: falsy_def)
  let ?row = "\<lparr>user_id = next_user_id (repo_rows repo),
               user_username = body_username user,
               user_email = body_email user,
               user_password = hash plain salt,
               user_phone = body_phone user,
               user_photoUrl = body_photoUrl user\<rparr>"
  have "createUser hash salt repo user = (Inr ?row, repo\<lparr>repo_rows := repo_rows repo @ [?row]\<rparr>)"
    using a nf nofault by (simp add: createUser_def create_def Let_def)
  then show "\<exists>created.
         createUser hash salt repo user
           = (Inr created, repo\<lparr>repo_rows := repo_rows repo @ [created]\<rparr>)
         \<and> user_email created = body_email user
         \<and> user_username created = body_username user
         \<and> user_password created = hash plain salt
         \<and> (hash plain salt \<noteq> plain \<longrightarrow> user_password created \<noteq> plain)"
    by (intro exI [of _ ?row]) simp
qed

theorem createUser_outcomes_witness:
  "createUser example_hash ''$2a$'' example_users
       \<lparr>body_username = ''al'', body_email = ''a@b.com'', body_password = Some ''12345678'',
        body_phone = None, body_photoUrl = None\<rparr>
     = (Inl (BadRequest ''Email already exist.''), example_users)
   \<and> createUser example_hash ''$2a$'' example_users
       \<lparr>body_username = ''bob'', body_email = ''b@b.com'', body_password = None,
        body_phone = None, body_photoUrl = None\<rparr>
     = (Inl (BadRequest ''User Must Have Password.''), example_users)
   \<and> (\<exists>created. createUser example_hash ''$2a$'' example_users
       \<lparr>body_username = ''bob'', body_email = ''b@b.com'', body_password = Some ''12345678'',
        body_phone = None, body_photoUrl = None\<rparr>
     = (Inr created, example_users\<lparr>repo_rows := repo_rows example_users @ [created]\<rparr>)
      \<and> user_password created = ''$2a$12345678'' \<and> user_password created \<noteq> ''12345678'')"
proof -
  have registered: "find_by_email example_users ''a@b.com'' = Inr [alice]"
    by (simp add: find_by_email_def example_users_def alice_def)
  have fresh: "find_by_email example_users ''b@b.com'' = Inr []"
    by (simp add: find_by_email_def example_users_def alice_def)
  have hashed: "example_hash ''12345678'' ''$2a$'' = ''$2a$12345678''"
    by (simp add: example_hash_def)
  have "createUser example_hash ''$2a$'' example_users
       \<lparr>body_username = ''al'', body_email = ''a@b.com'', body_password = Some ''12345678'',
        body_phone = None, body_photoUrl = None\<rparr>
     = (Inl (BadRequest ''Email already exist.''), example_users)"
    using registered
      createUser_outcomes [where repo = example_users and hash = example_hash and salt = "''$2a$''"
        and user = "\<lparr>body_username = ''al'', body_email = ''a@b.com'',
          body_password = Some ''12345678'', body_phone = None, body_photoUrl = None\<rparr>"
        and x = alice and xs = "[]" and plain = "''12345678''"]
    by simp
  moreover have "createUser example_hash ''$2a$'' example_users
       \<lparr>body_username = ''bob'', body_email = ''b@b.com'', body_password = None,
        body_phone = None, body_photoUrl = None\<rparr>
     = (Inl (BadRequest ''User Must Have Password.''), example_users)"
    using fresh
      createUser_outcomes [where repo = example_users and hash = example_hash and salt = "''$2a$''"
        and user = "\<lparr>body_username = ''bob'', body_email = ''b@b.com'',
          body_password = None, body_phone = None, body_photoUrl = None\<rparr>"
        and x = alice and xs = "[]" and plain = "''12345678''"]
    by (simp add: falsy_def)
  moreover have "\<exists>created. createUser example_hash ''$2a$'' example_users
       \<lparr>body_username = ''bob'', body_email = ''b@b.com'', body_password = Some ''12345678'',
        body_phone = None, body_photoUrl = None\<rparr>
     = (Inr created, example_users\<lparr>repo_rows := repo_rows example_users @ [created]\<rparr>)
      \<and> user_password created = ''$2a$12345678'' \<and> user_password created \<noteq> ''12345678''"
    using fresh hashed
      createUser_outcomes [where repo = example_users and hash = example_hash and salt = "''$2a$''"
        and user = "\<lparr>body_username = ''bob'', body_email = ''b@b.com'',
          body_password = Some ''12345678'', body_phone = None, body_photoUrl = None\<rparr>"
        and x = alice and xs = "[]" and plain = "''12345678''"]
    by auto
  ultimately show ?thesis by blast
qed

text \<open>
  The claim as the specification states it fails: the handler checks no minimum length,
  and a signup with the three-character password \<^verbatim>\<open>abc\<close> creates the user.
\<close>

theorem createUser_short_password_counterexample:
  "length ''abc'' < (8::nat)
   \<and> createUser example_hash ''$2a$'' \<lparr>repo_rows = [], repo_fault = None\<rparr>
       \<lparr>body_username = ''bob'', body_email = ''b@b.com'', body_password = Some ''abc'',
        body_phone = None, body_photoUrl = None\<rparr>
     = (Inr \<lparr>user_id = 1, user_username = ''bob'', user_email = ''b@b.com'',
             user_password = ''$2a$abc'', user_phone = None, user_photoUrl = None\<rparr>,
        \<lparr>repo_rows = [\<lparr>user_id = 1, user_username = ''bob'', user_email = ''b@b.com'',
             user_password = ''$2a$abc'', user_phone = None, user_photoUrl = None\<rparr>],
         repo_fault = None\<rparr>)"
  by (simp add: createUser_def create_def find_by_email_def falsy_def example_hash_def
        next_user_id_def Let_def)

section \<open>The current user\<close>

text \<open>
  C6. \<^verbatim>\<open>GET /whoAmI\<close> is decorated with \<^verbatim>\<open>@secured()\<close>, whose default type is
  \<^verbatim>\<open>IS_AUTHENTICATED\<close>; under it the action attaches the identity the strategy
  resolved to the request. When the lookup of the token's email finds a stored user,
  \<open>verifyToken\<close> hands over an identity on which \<open>whoAmI\<close> returns the id of that
  stored user, whose email is the one of the token.
\<close>

theorem whoAmI_subject:
  "meta_type whoAmI_metadata = IS_AUTHENTICATED
   \<and> (getMetadata a = Some whoAmI_metadata \<and> getStrategy a = Some strategy
        \<and> authenticate strategy request = Inr (Some info) \<longrightarrow>
        currentUser (snd (action a request ctx)) = Some info
        \<and> fst (action a request ctx) = Inr (Some info))
   \<and> (findOne (userRepository p) (payload_email payload) = Inr (Some u) \<longrightarrow>
        (\<exists>info. verifyToken p payload = [Done None (Some info)]
            \<and> whoAmI info = user_id u
            \<and> user_email u = payload_email payload))"
  by (auto simp: whoAmI_metadata_def secured_def action_def called_def verifyToken_def
        whoAmI_def Let_def dest: findOne_email)

theorem whoAmI_subject_witness:
  "verifyToken \<lparr>metadata = Some whoAmI_metadata, userRepository = example_users\<rparr>
      \<lparr>payload_email = ''a@b.com''\<rparr>
     = [Done None (Some \<lparr>info_securityId = 7, info_username = ''alice'', info_email = ''a@b.com'',
                          info_roles = [], info_phone = None, info_photoUrl = None\<rparr>)]
   \<and> whoAmI \<lparr>info_securityId = 7, info_username = ''alice'', info_email = ''a@b.com'',
              info_roles = [], info_phone = None, info_photoUrl = None\<rparr> = user_id alice
   \<and> meta_type whoAmI_metadata = IS_AUTHENTICATED
   \<and> currentUser (snd (action
         \<lparr>getStrategy = Some \<lparr>strategy_name = ''jwt'',
            authenticate = (\<lambda>r. Inr (Some \<lparr>info_securityId = 7, info_username = ''alice'',
              info_email = ''a@b.com'', info_roles = [], info_phone = None,
              info_photoUrl = None\<rparr>))\<rparr>,
          getMetadata = Some whoAmI_metadata\<rparr>
         \<lparr>bearer = Some ''hhh'', query = []\<rparr>
         \<lparr>currentUser = None, calls = []\<rparr>))
     = Some \<lparr>info_securityId = 7, info_username = ''alice'', info_email = ''a@b.com'',
              info_roles = [], info_phone = None, info_photoUrl = None\<rparr>"
proof -
  let ?info = "\<lparr>info_securityId = 7, info_username = ''alice'', info_email = ''a@b.com'',
                 info_roles = [], info_phone = None, info_photoUrl = None\<rparr>"
  let ?strategy = "\<lparr>strategy_name = ''jwt'', authenticate = (\<lambda>r::example_request. Inr (Some ?info))\<rparr>"
  have found: "findOne example_users ''a@b.com'' = Inr (Some alice)"
    by (simp add: findOne_def example_users_def alice_def)
  have "\<exists>info. verifyToken \<lparr>metadata = Some whoAmI_metadata, userRepository = example_users\<rparr>
            \<lparr>payload_email = ''a@b.com''\<rparr> = [Done None (Some info)]
          \<and> whoAmI info = user_id alice"
    and guard: "meta_type whoAmI_metadata = IS_AUTHENTICATED"
    and attached: "currentUser (snd (action
         \<lparr>getStrategy = Some ?strategy, getMetadata = Some whoAmI_metadata\<rparr>
         \<lparr>bearer = Some ''hhh'', query = []\<rparr>
         \<lparr>currentUser = None, calls = []\<rparr>)) = Some ?info"
    using found
      whoAmI_subject [where p = "\<lparr>metadata = Some whoAmI_metadata, userRepository = example_users\<rparr>"
        and payload = "\<lparr>payload_email = ''a@b.com''\<rparr>" and u = alice
        and a = "\<lparr>getStrategy = Some ?strategy, getMetadata = Some whoAmI_metadata\<rparr>"
        and strategy = ?strategy
        and request = "\<lparr>bearer = Some ''hhh'', query = []\<rparr>"
        and ctx = "\<lparr>currentUser = None, calls = []\<rparr>"
        and info = ?info]
    by auto
  then show ?thesis
    by (simp add: found verifyToken_def alice_def whoAmI_def)
qed

section \<open>The identity omits the password hash\<close>

text \<open>
  C7. The identity built from a matched stored user is its projection onto id, username,
  email, phone and photoUrl, with the empty object for roles. It does not carry the
  stored password hash: replacing the password hashes of the stored users by any others
  leaves the outcome of \<open>verifyToken\<close> unchanged.
\<close>

theorem userInfo_omits_password:
  "verifyToken
      (p\<lparr>userRepository :=
           (userRepository p)\<lparr>repo_rows :=
              map (\<lambda>u. u\<lparr>user_password := f u\<rparr>) (repo_rows (userRepository p))\<rparr>\<rparr>)
      payload
     = verifyToken p payload
   \<and> (findOne (userRepository p) (payload_email payload) = Inr (Some u) \<longrightarrow>
        verifyToken p payload
          = [Done None (Some \<lparr>info_securityId = user_id u,
                               info_username = user_username u,
                               info_email = user_email u,
                               info_roles = [],
                               info_phone = user_phone u,
                               info_photoUrl = user_photoUrl u\<rparr>)])"
proof
  show "verifyToken
      (p\<lparr>userRepository :=
           (userRepository p)\<lparr>repo_rows :=
              map (\<lambda>u. u\<lparr>user_password := f u\<rparr>) (repo_rows (userRepository p))\<rparr>\<rparr>)
      payload
     = verifyToken p payload"
  proof (cases "repo_fault (userRepository p)")
    case (Some err)
    then show ?thesis by (simp add: verifyToken_def findOne_def)
  next
    case None
    then show ?thesis
      by (cases "find (\<lambda>u. user_email u = payload_email payload) (repo_rows (userRepository p))")
         (simp_all add: verifyToken_def findOne_def find_map_password)
  qed
next
  show "findOne (userRepository p) (payload_email payload) = Inr (Some u) \<longrightarrow>
        verifyToken p payload
          = [Done None (Some \<lparr>info_securityId = user_id u,
                               info_username = user_username u,
                               info_email = user_email u,
                               info_roles = [],
                               info_phone = user_phone u,
                               info_photoUrl = user_photoUrl u\<rparr>)]"
    by (simp add: verifyToken_def)
qed

theorem userInfo_omits_password_witness:
  "verifyToken \<lparr>metadata = None,
      userRepository = \<lparr>repo_rows = [alice\<lparr>user_password := ''other''\<rparr>], repo_fault = None\<rparr>\<rparr>
      \<lparr>payload_email = ''a@b.com''\<rparr>
     = [Done None (Some \<lparr>info_securityId = 7, info_username = ''alice'', info_email = ''a@b.com'',
                          info_roles = [], info_phone = None, info_photoUrl = None\<rparr>)]
   \<and> verifyToken \<lparr>metadata = None, userRepository = example_users\<rparr> \<lparr>payload_email = ''a@b.com''\<rparr>
     = [Done None (Some \<lparr>info_securityId = 7, info_username = ''alice'', info_email = ''a@b.com'',
                          info_roles = [], info_phone = None, info_photoUrl = None\<rparr>)]"
  using userInfo_omits_password [where p = "\<lparr>metadata = None, userRepository = example_users\<rparr>"
      and payload = "\<lparr>payload_email = ''a@b.com''\<rparr>" and u = alice and f = "\<lambda>u. ''other''"]
  by (simp add: findOne_def example_users_def alice_def)

section \<open>Token lifetime\<close>

text \<open>
  C8. For every claim and every lifetime, parsing an issued token returns the claim
  before the lifetime has elapsed and Expired strictly after it. The token that login
  returns carries the email of the credentials, expires 3600 seconds after its issue,
  and is signed with the secret the verification strategy checks with; so the strategy's
  secret parses it to its claim within the hour and to Expired after it.
\<close>

theorem login_token_roundtrip:
  "(now' < now + ttl \<longrightarrow> parse secret now' (issue secret now claim ttl) = Claim claim)
   \<and> (now + ttl < now' \<longrightarrow> parse secret now' (issue secret now claim ttl) = Expired)
   \<and> (login (signAsync_at now) compare repo c = Inr token
        \<and> strategy_value fromAuthHeaderAsBearerToken fromUrlQueryParameter p = Some strategy \<longrightarrow>
        tok_signedWith token = secretOrKey strategy
        \<and> tok_expiresAt token = tok_issuedAt token + 60 * 60
        \<and> tok_issuedAt token = now
        \<and> cred_email c = Some (payload_email (tok_claim token))
        \<and> (now' < now + 3600 \<longrightarrow> parse (secretOrKey strategy) now' token = Claim (tok_claim token))
        \<and> (now + 3600 < now' \<longrightarrow> parse (secretOrKey strategy) now' token = Expired))"
proof (intro conjI impI)
  assume "now' < now + ttl"
  then show "parse secret now' (issue secret now claim ttl) = Claim claim"
    by (simp add: parse_def issue_def)
next
  assume "now + ttl < now'"
  then show "parse secret now' (issue secret now claim ttl) = Expired"
    by (simp add: parse_def issue_def)
next
  assume a: "login (signAsync_at now) compare repo c = Inr token
        \<and> strategy_value fromAuthHeaderAsBearerToken fromUrlQueryParameter p = Some strategy"
  then have key: "secretOrKey strategy = ''testjwt''"
    by (auto simp: strategy_value_def JWT_SECRET_def split: option.splits if_splits)
  from a obtain email where email: "cred_email c = Some email"
    and tok: "token = issue ''testjwt'' now \<lparr>payload_email = email\<rparr> (60 * 60)"
    by (auto simp: login_def falsy_def signAsync_at_def Let_def
          split: if_splits sum.splits option.splits)
  show "tok_signedWith token = secretOrKey strategy"
    using key tok by (simp add: issue_def)
  show "tok_expiresAt token = tok_issuedAt token + 60 * 60"
    using tok by (simp add: issue_def)
  show "tok_issuedAt token = now"
    using tok by (simp add: issue_def)
  show "cred_email c = Some (payload_email (tok_claim token))"
    using tok email by (simp add: issue_def)
  { assume "now' < now + 3600"
    then show "parse (secretOrKey strategy) now' token = Claim (tok_claim token)"
      using key tok by (simp add: parse_def issue_def) }
  { assume "now + 3600 < now'"
    then show "parse (secretOrKey strategy) now' token = Expired"
      using key tok by (simp add: parse_def issue_def) }
qed

theorem login_token_roundtrip_witness:
  "parse JWT_SECRET 3699 (issue JWT_SECRET 100 \<lparr>payload_email = ''a@b.com''\<rparr> 3600)
     = Claim \<lparr>payload_email = ''a@b.com''\<rparr>
   \<and> parse JWT_SECRET 3701 (issue JWT_SECRET 100 \<lparr>payload_email = ''a@b.com''\<rparr> 3600) = Expired
   \<and> login (signAsync_at 100) example_compare example_users
        \<lparr>cred_email = Some ''a@b.com'', cred_password = Some ''12345678''\<rparr>
     = Inr (issue JWT_SECRET 100 \<lparr>payload_email = ''a@b.com''\<rparr> 3600)
   \<and> map_option secretOrKey
        (strategy_value example_header example_query
           \<lparr>metadata = Some whoAmI_metadata, userRepository = example_users\<rparr>)
     = Some JWT_SECRET"
proof -
  have logged_in: "login (signAsync_at 100) example_compare example_users
        \<lparr>cred_email = Some ''a@b.com'', cred_password = Some ''12345678''\<rparr>
     = Inr (issue JWT_SECRET 100 \<lparr>payload_email = ''a@b.com''\<rparr> 3600)"
    by (simp add: login_def falsy_def findOne_def example_users_def alice_def example_compare_def
          signAsync_at_def JWT_SECRET_def)
  have strategy: "strategy_value example_header example_query
           \<lparr>metadata = Some whoAmI_metadata, userRepository = example_users\<rparr>
     = Some \<lparr>secretOrKey = JWT_SECRET,
              jwtFromRequest = fromExtractors [example_header, example_query ''access_token''],
              verify = verifyToken \<lparr>metadata = Some whoAmI_metadata, userRepository = example_users\<rparr>\<rparr>"
    by (simp add: strategy_value_def whoAmI_metadata_def secured_def JWT_STRATEGY_NAME_def)
  have early: "(3699::nat) < 100 + 3600" and late: "(100::nat) + 3600 < 3701"
    by simp_all
  show ?thesis
    using logged_in strategy early late
      login_token_roundtrip [where now = 100 and now' = 3699 and ttl = 3600 and secret = JWT_SECRET
        and claim = "\<lparr>payload_email = ''a@b.com''\<rparr>" and compare = example_compare
        and repo = example_users
        and c = "\<lparr>cred_email = Some ''a@b.com'', cred_password = Some ''12345678''\<rparr>"
        and token = "issue JWT_SECRET 100 \<lparr>payload_email = ''a@b.com''\<rparr> 3600"
        and fromAuthHeaderAsBearerToken = example_header and fromUrlQueryParameter = example_query
        and p = "\<lparr>metadata = Some whoAmI_metadata, userRepository = example_users\<rparr>"
        and strategy = "\<lparr>secretOrKey = JWT_SECRET,
              jwtFromRequest = fromExtractors [example_header, example_query ''access_token''],
              verify = verifyToken \<lparr>metadata = Some whoAmI_metadata, userRepository = example_users\<rparr>\<rparr>"]
      login_token_roundtrip [where now = 100 and now' = 3701 and ttl = 3600 and secret = JWT_SECRET
        and claim = "\<lparr>payload_email = ''a@b.com''\<rparr>" and compare = example_compare
        and repo = example_users
        and c = "\<lparr>cred_email = Some ''a@b.com'', cred_password = Some ''12345678''\<rparr>"
        and token = "issue JWT_SECRET 100 \<lparr>payload_email = ''a@b.com''\<rparr> 3600"
        and fromAuthHeaderAsBearerToken = example_header and fromUrlQueryParameter = example_query
        and p = "\<lparr>metadata = Some whoAmI_metadata, userRepository = example_users\<rparr>"
        and strategy = "\<lparr>secretOrKey = JWT_SECRET,
              jwtFromRequest = fromExtractors [example_header, example_query ''access_token''],
              verify = verifyToken \<lparr>metadata = Some whoAmI_metadata, userRepository = example_users\<rparr>\<rparr>"]
    by simp
qed

section \<open>Token extraction\<close>

text \<open>
  C9. The strategy extracts the token from the \<^verbatim>\<open>Authorization: Bearer\<close> header
  first and from the query parameter \<^verbatim>\<open>access_token\<close> second: the result is the
  header's token when it is present and not empty, otherwise the query parameter's
  when that is present and not empty, otherwise none. For a request that carries a
  token in both places, the header's token is the one extracted.
\<close>

theorem header_before_query:
  "(strategy_value fromAuthHeaderAsBearerToken fromUrlQueryParameter p = Some strategy \<longrightarrow>
      jwtFromRequest strategy request =
        (case fromAuthHeaderAsBearerToken request of
           Some token \<Rightarrow>
             if token \<noteq> [] then Some token
             else (case fromUrlQueryParameter ''access_token'' request of
                     Some token' \<Rightarrow> if token' \<noteq> [] then Some token' else None
                   | None \<Rightarrow> None)
         | None \<Rightarrow>
             (case fromUrlQueryParameter ''access_token'' request of
                Some token' \<Rightarrow> if token' \<noteq> [] then Some token' else None
              | None \<Rightarrow> None)))
   \<and> (strategy_value fromAuthHeaderAsBearerToken fromUrlQueryParameter p = Some strategy
        \<and> fromAuthHeaderAsBearerToken request = Some fromHeader \<and> fromHeader \<noteq> []
        \<and> fromUrlQueryParameter ''access_token'' request = Some fromQuery \<longrightarrow>
      jwtFromRequest strategy request = Some fromHeader)"
  by (auto simp: strategy_value_def split: option.splits if_splits)

theorem header_before_query_witness:
  "map_option (\<lambda>s. jwtFromRequest s \<lparr>bearer = Some ''hhh'', query = [(''access_token'', ''qqq'')]\<rparr>)
     (strategy_value example_header example_query
        \<lparr>metadata = Some whoAmI_metadata, userRepository = example_users\<rparr>)
     = Some (Some ''hhh'')
   \<and> map_option (\<lambda>s. jwtFromRequest s \<lparr>bearer = None, query = [(''access_token'', ''qqq'')]\<rparr>)
     (strategy_value example_header example_query
        \<lparr>metadata = Some whoAmI_metadata, userRepository = example_users\<rparr>)
     = Some (Some ''qqq'')"
proof -
  let ?p = "\<lparr>metadata = Some whoAmI_metadata, userRepository = example_users\<rparr>"
  let ?s = "\<lparr>secretOrKey = JWT_SECRET,
              jwtFromRequest = fromExtractors [example_header, example_query ''access_token''],
              verify = verifyToken ?p\<rparr>"
  have strategy: "strategy_value example_header example_query ?p = Some ?s"
    by (simp add: strategy_value_def whoAmI_metadata_def secured_def JWT_STRATEGY_NAME_def)
  have "jwtFromRequest ?s \<lparr>bearer = Some ''hhh'', query = [(''access_token'', ''qqq'')]\<rparr> = Some ''hhh''"
    using strategy
      header_before_query [where fromAuthHeaderAsBearerToken = example_header
        and fromUrlQueryParameter = example_query and p = ?p and strategy = ?s
        and request = "\<lparr>bearer = Some ''hhh'', query = [(''access_token'', ''qqq'')]\<rparr>"
        and fromHeader = "''hhh''" and fromQuery = "''qqq''"]
    by (simp add: example_header_def example_query_def)
  moreover
  have "jwtFromRequest ?s \<lparr>bearer = None, query = [(''access_token'', ''qqq'')]\<rparr> = Some ''qqq''"
    using strategy
      header_before_query [where fromAuthHeaderAsBearerToken = example_header
        and fromUrlQueryParameter = example_query and p = ?p and strategy = ?s
        and request = "\<lparr>bearer = None, query = [(''access_token'', ''qqq'')]\<rparr>"
        and fromHeader = "''hhh''" and fromQuery = "''qqq''"]
    by (simp add: example_header_def example_query_def)
  ultimately show ?thesis
    using strategy by simp
qed

section \<open>Product ownership\<close>







end
